theory Spec2Isabelle
  imports Complex_Main
begin

section \<open>Data model of the collision stage\<close>

text \<open>
  The stage is \<^verbatim>\<open>TrafficManager/source/pipeline/CollisionStage.cpp\<close>. Its \<^verbatim>\<open>float\<close>
  variables are idealised as real numbers, and its constants are the exact values of
  their single-precision literals: every property proved below turns on a comparison
  with such a constant, on the choice of a branch or on the order of effects, none on
  the rounding of an arithmetic operation. Unsigned indices are
  natural numbers; the only index arithmetic is \<^verbatim>\<open>++\<close> below a container's size.
\<close>

type_synonym ActorId = nat

text \<open>\<^verbatim>\<open>cg::Vector3D\<close> and \<^verbatim>\<open>cg::Location\<close> (fields \<^verbatim>\<open>x\<close>, \<^verbatim>\<open>y\<close>, \<^verbatim>\<open>z\<close>).\<close>

record Vector3D =
  vec_x :: real
  vec_y :: real
  vec_z :: real

type_synonym Location = Vector3D

definition vec :: "real \<Rightarrow> real \<Rightarrow> real \<Rightarrow> Vector3D" where
  "vec a b c = \<lparr>vec_x = a, vec_y = b, vec_z = c\<rparr>"

definition vadd :: "Vector3D \<Rightarrow> Vector3D \<Rightarrow> Vector3D" where
  "vadd u v = vec (vec_x u + vec_x v) (vec_y u + vec_y v) (vec_z u + vec_z v)"

definition vsub :: "Vector3D \<Rightarrow> Vector3D \<Rightarrow> Vector3D" where
  "vsub u v = vec (vec_x u - vec_x v) (vec_y u - vec_y v) (vec_z u - vec_z v)"

definition vscale :: "real \<Rightarrow> Vector3D \<Rightarrow> Vector3D" where
  "vscale k v = vec (k * vec_x v) (k * vec_y v) (k * vec_z v)"

type_synonym LocationList = "Location list"

text \<open>A \<^verbatim>\<open>bg\<close> polygon: the ring of planar points that \<^verbatim>\<open>read_wkt\<close> parsed.\<close>

type_synonym Polygon = "(real \<times> real) list"

text \<open>A \<^verbatim>\<open>SimpleWaypoint\<close>, as far as the stage queries it.\<close>

record SimpleWaypoint =
  wp_location :: Location
  wp_forward :: Vector3D

text \<open>One element of the frame received from the localization stage.\<close>

record 'a LocalizationToCollisionData =
  actor :: 'a
  buffer :: "SimpleWaypoint list"

text \<open>
  How a call can fail. \<open>Exception\<close> is a C++ exception derived from
  \<^verbatim>\<open>std::exception\<close> (what \<^verbatim>\<open>vector::at\<close> and the simulator client throw);
  \<open>Undefined\<close> is behaviour that is no exception and that no handler sees: dereferencing
  a null handle, \<^verbatim>\<open>front()\<close> of an empty container, \<^verbatim>\<open>boundary[0]\<close> of an empty list.
\<close>

datatype failure = Exception | Undefined

definition bnd :: "failure + 'b \<Rightarrow> ('b \<Rightarrow> failure + 'c) \<Rightarrow> failure + 'c" where
  "bnd m f = (case m of Inl e \<Rightarrow> Inl e | Inr v \<Rightarrow> f v)"

text \<open>The two output arrays are shared with the motion planner by pointer.\<close>

datatype frame_ref = FrameA | FrameB

text \<open>Effects that leave the stage, in the order in which the code performs them.\<close>

datatype event =
    LogWarning string
  | LogInfo string
  | SelectorFlipped
  | PacketSent int frame_ref

text \<open>
  What the stage calls and its source file does not contain: the simulator client
  (\<^verbatim>\<open>cc::Actor\<close>, \<^verbatim>\<open>cc::World\<close>), the vicinity grid, \<^verbatim>\<open>cg::Math\<close>,
  \<^verbatim>\<open>boost::geometry\<close>, the clock and the two messengers. They are parameters of the
  model; \<open>'a\<close> is a non-null actor handle and \<open>'g\<close> the state of the vicinity grid.
  \<open>to_string\<close> is the number read back from the decimal text of \<^verbatim>\<open>std::to_string\<close>.
\<close>

record ('a, 'g) externals =
  GetId :: "'a \<Rightarrow> ActorId"
  GetLocation :: "'a \<Rightarrow> failure + Location"
  GetVelocity :: "'a \<Rightarrow> failure + Vector3D"
  GetBoundingBox :: "'a \<Rightarrow> failure + Vector3D"
  GetForwardVector :: "'a \<Rightarrow> failure + Vector3D"
  IsAlive :: "'a \<Rightarrow> bool"
  world_vehicles :: "failure + 'a list"
  now :: real
  GetActors :: "'g \<Rightarrow> 'a \<Rightarrow> ActorId list \<times> 'g"
  UpdateGrid :: "'g \<Rightarrow> 'a \<Rightarrow> 'g"
  EraseActor :: "'g \<Rightarrow> ActorId \<Rightarrow> 'g"
  DistanceSquared :: "Location \<Rightarrow> Location \<Rightarrow> real"
  Length :: "Vector3D \<Rightarrow> real"
  MakeUnitVector :: "Vector3D \<Rightarrow> Vector3D"
  WaypointDistanceSquared :: "SimpleWaypoint \<Rightarrow> SimpleWaypoint \<Rightarrow> real"
  to_string :: "real \<Rightarrow> real"
  bg_intersection :: "Polygon \<Rightarrow> Polygon \<Rightarrow> failure + Polygon list"
  bg_area :: "Polygon \<Rightarrow> real"
  bg_distance :: "Polygon \<Rightarrow> Polygon \<Rightarrow> failure + real"
  ReceiveData :: "int \<Rightarrow> int \<times> 'a LocalizationToCollisionData list"
  SendData :: "int \<times> frame_ref \<Rightarrow> int"

text \<open>
  The members of \<^verbatim>\<open>CollisionStage\<close>. \<open>unregistered_actors\<close> is iterated, so it is an
  association list in iteration order; \<open>id_to_index\<close> is only looked up. \<open>trace\<close>
  records the outgoing effects, oldest first.
\<close>

record ('a, 'g) CollisionStage =
  localization_frame :: "'a LocalizationToCollisionData list"
  id_to_index :: "ActorId \<rightharpoonup> nat"
  unregistered_actors :: "(ActorId \<times> 'a) list"
  vicinity_grid :: 'g
  last_world_actors_pass_instance :: real
  frame_selector :: bool
  planner_frame_a :: "bool list"
  planner_frame_b :: "bool list"
  localization_messenger_state :: int
  planner_messenger_state :: int
  trace :: "event list"

section \<open>Constants\<close>

text \<open>
  The constants are \<^verbatim>\<open>float\<close> values, so each one is the single-precision number
  nearest to its literal. \<open>20\<close>, \<open>2\<close>, \<open>1.5\<close>, \<open>7\<close>, \<open>0.5\<close> and \<open>5\<close> are
  exact; \<^verbatim>\<open>0.0001f\<close> is \<open>13743895 / 2 ^ 37\<close>, a little below \<open>1 / 10000\<close>; and
  \<^verbatim>\<open>50 / 3.6f\<close>, the quotient of 50 by the float \<open>7549747 / 2 ^ 21\<close> rounded to single
  precision, is \<open>3640889 / 2 ^ 18\<close>, a little above \<open>125 / 9\<close>.
\<close>

definition SEARCH_RADIUS :: real where "SEARCH_RADIUS = 20"
definition VERTICAL_OVERLAP_THRESHOLD :: real where "VERTICAL_OVERLAP_THRESHOLD = 2"
definition ZERO_AREA :: real where "ZERO_AREA = 13743895 / 137438953472"
definition BOUNDARY_EXTENSION_MINIMUM :: real where "BOUNDARY_EXTENSION_MINIMUM = 3 / 2"
definition EXTENSION_SQUARE_POINT :: real where "EXTENSION_SQUARE_POINT = 7"
definition TIME_HORIZON :: real where "TIME_HORIZON = 1 / 2"
definition HIGHWAY_SPEED :: real where "HIGHWAY_SPEED = 3640889 / 262144"
definition HIGHWAY_TIME_HORIZON :: real where "HIGHWAY_TIME_HORIZON = 5"

section \<open>Boundaries\<close>

text \<open>
  \<^verbatim>\<open>GetBoundary\<close>: the four corners of the bounding box in top view. The handle is
  queried in the order of the source: bounding box, location, transform.
\<close>

definition GetBoundary :: "('a, 'g) externals \<Rightarrow> 'a \<Rightarrow> failure + LocationList" where
  "GetBoundary E a =
     bnd (GetBoundingBox E a) (\<lambda>extent.
     bnd (GetLocation E a) (\<lambda>location.
     bnd (GetForwardVector E a) (\<lambda>fwd.
       let heading_vector = fwd\<lparr>vec_z := 0\<rparr>;
           perpendicular_vector = vec (- vec_y heading_vector) (vec_x heading_vector) 0;
           x_boundary_vector = vscale (vec_x extent) heading_vector;
           y_boundary_vector = vscale (vec_y extent) perpendicular_vector
       in Inr [vadd location (vsub x_boundary_vector y_boundary_vector),
               vadd location (vsub (vscale (-1) x_boundary_vector) y_boundary_vector),
               vadd location (vadd (vscale (-1) x_boundary_vector) y_boundary_vector),
               vadd location (vadd x_boundary_vector y_boundary_vector)])))"

text \<open>Lines 229 to 233: the length by which the boundary is extended along the path.\<close>

definition bbox_extension :: "real \<Rightarrow> real" where
  "bbox_extension velocity =
     (let additive = max (sqrt (EXTENSION_SQUARE_POINT * velocity)) BOUNDARY_EXTENSION_MINIMUM
                     + max (velocity * TIME_HORIZON) BOUNDARY_EXTENSION_MINIMUM
                     + BOUNDARY_EXTENSION_MINIMUM
      in if velocity > HIGHWAY_SPEED then HIGHWAY_TIME_HORIZON * velocity else additive)"

text \<open>\<^verbatim>\<open>vector::at\<close> and \<^verbatim>\<open>deque::at\<close> throw \<^verbatim>\<open>std::out_of_range\<close>.\<close>

definition vector_at :: "'b list \<Rightarrow> nat \<Rightarrow> failure + 'b" where
  "vector_at xs i = (if i < length xs then Inr (xs ! i) else Inl Exception)"

text \<open>
  The loop of lines 247 to 261. It stops when the waypoint reached is \<open>bbox_extension\<close>
  away from the first one or when the buffer is used up; \<open>i < length wb\<close> holds wherever
  \<open>wb ! i\<close> is read.
\<close>

function boundary_loop ::
  "('a, 'g) externals \<Rightarrow> SimpleWaypoint list \<Rightarrow> SimpleWaypoint \<Rightarrow> real \<Rightarrow> real \<Rightarrow>
   nat \<Rightarrow> SimpleWaypoint \<Rightarrow> LocationList \<Rightarrow> LocationList \<Rightarrow> LocationList \<times> LocationList" where
  "boundary_loop E wb boundary_start ext width i boundary_end left_boundary right_boundary =
     (if WaypointDistanceSquared E boundary_start boundary_end < ext ^ 2 \<and> i < length wb then
        let heading_vector = wp_forward boundary_end;
            location = wp_location boundary_end;
            perpendicular_vector =
              MakeUnitVector E (vec (- vec_y heading_vector) (vec_x heading_vector) 0);
            scaled_perpendicular = vscale width perpendicular_vector
        in boundary_loop E wb boundary_start ext width (Suc i) (wb ! i)
             (left_boundary @ [vadd location scaled_perpendicular])
             (right_boundary @ [vadd location (vscale (-1) scaled_perpendicular)])
      else (left_boundary, right_boundary))"
  by pat_completeness auto
termination
  by (relation "measure (\<lambda>(E, wb, st, ext, width, i, en, l, r). length wb - i)") auto

declare boundary_loop.simps [simp del]

text \<open>
  \<^verbatim>\<open>GetGeodesicBoundary\<close>. For an actor of the map the bounding box is extended along
  the waypoint buffer; \<^verbatim>\<open>waypoint_buffer->front()\<close> is read without a test of the
  buffer, so an empty buffer is undefined behaviour.
\<close>

definition GetGeodesicBoundary ::
  "('a, 'g) externals \<Rightarrow> ('a, 'g) CollisionStage \<Rightarrow> 'a \<Rightarrow> failure + LocationList" where
  "GetGeodesicBoundary E s a =
     bnd (GetBoundary E a) (\<lambda>bbox.
       case id_to_index s (GetId E a) of
         Some index \<Rightarrow>
           bnd (GetVelocity E a) (\<lambda>v.
             let velocity = Length E v;
                 ext = bbox_extension velocity
             in bnd (vector_at (localization_frame s) index) (\<lambda>data.
                  let waypoint_buffer = buffer data
                  in bnd (GetBoundingBox E a) (\<lambda>extent.
                       let width = vec_y extent
                       in case waypoint_buffer of
                            [] \<Rightarrow> Inl Undefined
                          | front # _ \<Rightarrow>
                              (case boundary_loop E waypoint_buffer front ext width 0 front [] [] of
                                 (left_boundary, right_boundary) \<Rightarrow>
                                   Inr (rev right_boundary @ bbox @ left_boundary)))))
       | None \<Rightarrow> Inr bbox)"

section \<open>Overlap and negotiation\<close>

text \<open>
  \<^verbatim>\<open>GetPolygon\<close> prints every point, then the first point again, and parses the text.
  \<^verbatim>\<open>boundary[0]\<close> is read whatever the size of the list.
\<close>

definition GetPolygon :: "('a, 'g) externals \<Rightarrow> LocationList \<Rightarrow> failure + Polygon" where
  "GetPolygon E boundary =
     (case boundary of
        [] \<Rightarrow> Inl Undefined
      | first # _ \<Rightarrow>
          Inr (map (\<lambda>l. (to_string E (vec_x l), to_string E (vec_y l))) (boundary @ [first])))"

text \<open>The loop of lines 197 to 202 over the pieces of the intersection.\<close>

fun area_loop :: "('a, 'g) externals \<Rightarrow> Polygon list \<Rightarrow> bool \<Rightarrow> bool" where
  "area_loop E [] overlap = overlap"
| "area_loop E (p # ps) overlap =
     (if overlap then overlap
      else area_loop E ps (if bg_area E p > ZERO_AREA then True else overlap))"

definition CheckOverlap ::
  "('a, 'g) externals \<Rightarrow> LocationList \<Rightarrow> LocationList \<Rightarrow> failure + bool" where
  "CheckOverlap E boundary_a boundary_b =
     (if length boundary_a > 0 \<and> length boundary_b > 0 then
        bnd (GetPolygon E boundary_a) (\<lambda>reference_polygon.
        bnd (GetPolygon E boundary_b) (\<lambda>other_polygon.
        bnd (bg_intersection E reference_polygon other_polygon) (\<lambda>output.
          Inr (area_loop E output False))))
      else Inr False)"

text \<open>
  \<^verbatim>\<open>NegotiateCollision\<close>. The test of line 159 is the same whether \<^verbatim>\<open>abs\<close> is the
  floating-point or the integer overload: a difference is below 2 in absolute value
  exactly when its integer part is.
\<close>

definition NegotiateCollision ::
  "('a, 'g) externals \<Rightarrow> ('a, 'g) CollisionStage \<Rightarrow> 'a \<Rightarrow> 'a \<Rightarrow> failure + bool" where
  "NegotiateCollision E s reference_vehicle other_vehicle =
     bnd (GetLocation E reference_vehicle) (\<lambda>reference_location.
     bnd (GetLocation E other_vehicle) (\<lambda>other_location.
       let reference_height = vec_z reference_location;
           other_height = vec_z other_location
       in if \<bar>reference_height - other_height\<bar> < VERTICAL_OVERLAP_THRESHOLD then
            bnd (GetGeodesicBoundary E s reference_vehicle) (\<lambda>reference_geodesic_bbox.
            bnd (GetGeodesicBoundary E s other_vehicle) (\<lambda>other_geodesic_bbox.
            bnd (CheckOverlap E reference_geodesic_bbox other_geodesic_bbox) (\<lambda>geodesic_overlap.
            bnd (GetPolygon E reference_geodesic_bbox) (\<lambda>reference_geodesic_polygon.
            bnd (GetPolygon E other_geodesic_bbox) (\<lambda>other_geodesic_polygon.
            bnd (bnd (GetBoundary E reference_vehicle) (GetPolygon E)) (\<lambda>reference_polygon.
            bnd (bnd (GetBoundary E other_vehicle) (GetPolygon E)) (\<lambda>other_polygon.
            bnd (bg_distance E reference_polygon other_geodesic_polygon)
              (\<lambda>reference_vehicle_to_other_geodesic.
            bnd (bg_distance E other_polygon reference_geodesic_polygon)
              (\<lambda>other_vehicle_to_reference_geodesic.
              Inr (geodesic_overlap \<and>
                   reference_vehicle_to_other_geodesic > other_vehicle_to_reference_geodesic))))))))))
          else Inr False))"

section \<open>The stage: constructor, Action, DataReceiver, DataSender\<close>

text \<open>
  The constructor: both output arrays hold \<open>number_of_vehicle\<close> value-initialised
  entries, the selector starts at \<open>True\<close>, and no frame has been received yet.
\<close>

definition CollisionStage_init ::
  "int \<Rightarrow> int \<Rightarrow> nat \<Rightarrow> real \<Rightarrow> 'g \<Rightarrow> ('a, 'g) CollisionStage" where
  "CollisionStage_init localization_state planner_state number_of_vehicle clock grid =
     \<lparr>localization_frame = [],
      id_to_index = Map.empty,
      unregistered_actors = [],
      vicinity_grid = grid,
      last_world_actors_pass_instance = clock,
      frame_selector = True,
      planner_frame_a = replicate number_of_vehicle False,
      planner_frame_b = replicate number_of_vehicle False,
      localization_messenger_state = localization_state,
      planner_messenger_state = planner_state - 1,
      trace = []\<rparr>"

text \<open>Line 49 and line 147: the array the selector designates.\<close>

definition current_planner_frame :: "('a, 'g) CollisionStage \<Rightarrow> frame_ref" where
  "current_planner_frame s = (if frame_selector s then FrameA else FrameB)"

definition read_frame :: "('a, 'g) CollisionStage \<Rightarrow> frame_ref \<Rightarrow> bool list" where
  "read_frame s r = (case r of FrameA \<Rightarrow> planner_frame_a s | FrameB \<Rightarrow> planner_frame_b s)"

text \<open>Lines 124 and 125: \<^verbatim>\<open>current_planner_frame->at(i).hazard = collision_hazard\<close>.\<close>

definition write_hazard ::
  "frame_ref \<Rightarrow> nat \<Rightarrow> bool \<Rightarrow> ('a, 'g) CollisionStage \<Rightarrow> failure + ('a, 'g) CollisionStage" where
  "write_hazard r i hazard s =
     (if i < length (read_frame s r) then
        Inr (case r of
               FrameA \<Rightarrow> s\<lparr>planner_frame_a := (planner_frame_a s)[i := hazard]\<rparr>
             | FrameB \<Rightarrow> s\<lparr>planner_frame_b := (planner_frame_b s)[i := hazard]\<rparr>)
      else Inl Exception)"

text \<open>Lines 59 to 66: vehicles of the world that neither table knows are recorded.\<close>

fun scan_world_actors ::
  "('a, 'g) externals \<Rightarrow> ('a, 'g) CollisionStage \<Rightarrow> 'a list \<Rightarrow> ('a, 'g) CollisionStage" where
  "scan_world_actors E s [] = s"
| "scan_world_actors E s (a # as) =
     (let unregistered_id = GetId E a
      in scan_world_actors E
           (if id_to_index s unregistered_id = None \<and>
               map_of (unregistered_actors s) unregistered_id = None
            then s\<lparr>unregistered_actors := unregistered_actors s @ [(unregistered_id, a)]\<rparr>
            else s) as)"

text \<open>Lines 71 to 79: live actors are updated in the grid, dead ones erased and noted.\<close>

fun refresh_loop ::
  "('a, 'g) externals \<Rightarrow> (ActorId \<times> 'a) list \<Rightarrow> 'g \<Rightarrow> ActorId list \<Rightarrow> 'g \<times> ActorId list" where
  "refresh_loop E [] grid actor_ids_to_erase = (grid, actor_ids_to_erase)"
| "refresh_loop E (actor_info # rest) grid actor_ids_to_erase =
     (if IsAlive E (snd actor_info)
      then refresh_loop E rest (UpdateGrid E grid (snd actor_info)) actor_ids_to_erase
      else refresh_loop E rest (EraseActor E grid (fst actor_info))
             (actor_ids_to_erase @ [fst actor_info]))"

text \<open>Lines 53 to 83, run by the thread whose range starts at index 0.\<close>

definition update_unregistered ::
  "('a, 'g) externals \<Rightarrow> ('a, 'g) CollisionStage \<Rightarrow> failure + ('a, 'g) CollisionStage" where
  "update_unregistered E s =
     (let current_time = now E;
          diff = current_time - last_world_actors_pass_instance s
      in bnd (if diff > 1 / 2
              then bnd (world_vehicles E) (\<lambda>world_actors.
                     Inr ((scan_world_actors E s world_actors)
                            \<lparr>last_world_actors_pass_instance := current_time\<rparr>))
              else Inr s) (\<lambda>s1.
           case refresh_loop E (unregistered_actors s1) (vicinity_grid s1) [] of
             (grid, actor_ids_to_erase) \<Rightarrow>
               Inr (s1\<lparr>vicinity_grid := grid,
                       unregistered_actors :=
                         foldl (\<lambda>table actor_id. filter (\<lambda>entry. fst entry \<noteq> actor_id) table)
                           (unregistered_actors s1) actor_ids_to_erase\<rparr>)))"

text \<open>
  Lines 103 to 108: the handle of a candidate. It starts as \<^verbatim>\<open>nullptr\<close> (\<open>None\<close>) and
  stays so when neither table knows the identity; \<^verbatim>\<open>localization_frame->at\<close> throws
  when the index recorded in the map is not one of the current frame.
\<close>

definition resolve_actor ::
  "('a, 'g) CollisionStage \<Rightarrow> ActorId \<Rightarrow> failure + 'a option" where
  "resolve_actor s actor_id =
     (case id_to_index s actor_id of
        Some index \<Rightarrow> bnd (vector_at (localization_frame s) index) (\<lambda>data. Inr (Some (actor data)))
      | None \<Rightarrow>
          (case map_of (unregistered_actors s) actor_id of
             Some a \<Rightarrow> Inr (Some a)
           | None \<Rightarrow> Inr None))"

text \<open>
  Lines 101 to 116, the body of the \<^verbatim>\<open>try\<close> block: the value is whether this
  candidate sets \<^verbatim>\<open>collision_hazard\<close>. \<open>negotiate\<close> stands for the call of line 112.
  The two arguments of line 110 are evaluated left to right here (C++ leaves the order
  open); \<^verbatim>\<open>actor->GetLocation()\<close> dereferences the handle whatever it is.
\<close>

definition candidate_try ::
  "('a, 'g) externals \<Rightarrow> ('a \<Rightarrow> 'a \<Rightarrow> failure + bool) \<Rightarrow> ('a, 'g) CollisionStage \<Rightarrow>
   'a \<Rightarrow> ActorId \<Rightarrow> ActorId \<Rightarrow> failure + bool" where
  "candidate_try E negotiate s ego_actor ego_actor_id actor_id =
     (if actor_id \<noteq> ego_actor_id then
        bnd (resolve_actor s actor_id) (\<lambda>actor_handle.
        bnd (GetLocation E ego_actor) (\<lambda>ego_location.
        bnd (case actor_handle of None \<Rightarrow> Inl Undefined | Some a \<Rightarrow> Inr a) (\<lambda>a.
        bnd (GetLocation E a) (\<lambda>actor_location.
          let squared_distance = DistanceSquared E ego_location actor_location
          in if squared_distance \<le> SEARCH_RADIUS * SEARCH_RADIUS then
               bnd (negotiate ego_actor a) (\<lambda>hazard. Inr hazard)
             else Inr False))))
      else Inr False)"

text \<open>
  The loop of lines 97 to 122. The handler of line 117 catches \<^verbatim>\<open>std::exception\<close>,
  writes the two log lines of lines 118 and 119 and lets the loop go on; undefined
  behaviour is not caught.
\<close>

fun candidates_loop ::
  "('a, 'g) externals \<Rightarrow> ('a \<Rightarrow> 'a \<Rightarrow> failure + bool) \<Rightarrow> ('a, 'g) CollisionStage \<Rightarrow>
   'a \<Rightarrow> ActorId \<Rightarrow> ActorId list \<Rightarrow> bool \<Rightarrow> event list \<Rightarrow> failure + bool \<times> event list" where
  "candidates_loop E negotiate s ego_actor ego_actor_id [] collision_hazard logged =
     Inr (collision_hazard, logged)"
| "candidates_loop E negotiate s ego_actor ego_actor_id (actor_id # rest) collision_hazard logged =
     (if collision_hazard then Inr (collision_hazard, logged)
      else case candidate_try E negotiate s ego_actor ego_actor_id actor_id of
             Inr hazard \<Rightarrow>
               candidates_loop E negotiate s ego_actor ego_actor_id rest
                 (if hazard then True else collision_hazard) logged
           | Inl Exception \<Rightarrow>
               candidates_loop E negotiate s ego_actor ego_actor_id rest collision_hazard
                 (logged @ [LogWarning ''Encountered problem while determining collision \<newline>'',
                            LogInfo ''Actor might not be alive \<newline>''])
           | Inl Undefined \<Rightarrow> Inl Undefined)"

text \<open>Lines 88 to 126: one vehicle of the range.\<close>

definition vehicle_step ::
  "('a, 'g) externals \<Rightarrow> (('a, 'g) CollisionStage \<Rightarrow> 'a \<Rightarrow> 'a \<Rightarrow> failure + bool) \<Rightarrow> frame_ref \<Rightarrow>
   ('a, 'g) CollisionStage \<Rightarrow> nat \<Rightarrow> failure + ('a, 'g) CollisionStage" where
  "vehicle_step E negotiate current s i =
     bnd (vector_at (localization_frame s) i) (\<lambda>data.
       let ego_actor = actor data;
           ego_actor_id = GetId E ego_actor
       in case GetActors E (vicinity_grid s) ego_actor of
            (actor_id_list, grid) \<Rightarrow>
              let s1 = s\<lparr>vicinity_grid := grid\<rparr>
              in bnd (candidates_loop E (negotiate s1) s1 ego_actor ego_actor_id
                        actor_id_list False [])
                   (\<lambda>(collision_hazard, logged).
                      write_hazard current i collision_hazard (s1\<lparr>trace := trace s1 @ logged\<rparr>)))"

fun vehicles_loop ::
  "('a, 'g) externals \<Rightarrow> (('a, 'g) CollisionStage \<Rightarrow> 'a \<Rightarrow> 'a \<Rightarrow> failure + bool) \<Rightarrow> frame_ref \<Rightarrow>
   nat list \<Rightarrow> ('a, 'g) CollisionStage \<Rightarrow> failure + ('a, 'g) CollisionStage" where
  "vehicles_loop E negotiate current [] s = Inr s"
| "vehicles_loop E negotiate current (i # rest) s =
     bnd (vehicle_step E negotiate current s i) (vehicles_loop E negotiate current rest)"

text \<open>
  \<^verbatim>\<open>Action(start_index, end_index)\<close> with the call of line 112 as a parameter, and
  \<open>Action\<close> itself, where that call is \<open>NegotiateCollision\<close>. The range is inclusive.
\<close>

definition Action_with ::
  "('a, 'g) externals \<Rightarrow> (('a, 'g) CollisionStage \<Rightarrow> 'a \<Rightarrow> 'a \<Rightarrow> failure + bool) \<Rightarrow>
   nat \<Rightarrow> nat \<Rightarrow> ('a, 'g) CollisionStage \<Rightarrow> failure + ('a, 'g) CollisionStage" where
  "Action_with E negotiate start_index end_index s =
     (let current = current_planner_frame s
      in bnd (if start_index = 0 then update_unregistered E s else Inr s)
           (vehicles_loop E negotiate current [start_index ..< Suc end_index]))"

definition Action ::
  "('a, 'g) externals \<Rightarrow> nat \<Rightarrow> nat \<Rightarrow> ('a, 'g) CollisionStage \<Rightarrow>
   failure + ('a, 'g) CollisionStage" where
  "Action E = Action_with E (NegotiateCollision E)"

text \<open>
  Lines 138 to 141. \<^verbatim>\<open>unordered_map::insert\<close> leaves the map as it is when the key
  is already there.
\<close>

fun insert_loop ::
  "('a, 'g) externals \<Rightarrow> 'a LocalizationToCollisionData list \<Rightarrow> nat \<Rightarrow>
   (ActorId \<rightharpoonup> nat) \<Rightarrow> (ActorId \<rightharpoonup> nat)" where
  "insert_loop E [] index m = m"
| "insert_loop E (element # rest) index m =
     insert_loop E rest (Suc index)
       (case m (GetId E (actor element)) of
          None \<Rightarrow> m(GetId E (actor element) \<mapsto> index)
        | Some _ \<Rightarrow> m)"

definition DataReceiver ::
  "('a, 'g) externals \<Rightarrow> ('a, 'g) CollisionStage \<Rightarrow> ('a, 'g) CollisionStage" where
  "DataReceiver E s =
     (case ReceiveData E (localization_messenger_state s) of
        (packet_id, packet_data) \<Rightarrow>
          s\<lparr>localization_frame := packet_data,
            localization_messenger_state := packet_id,
            id_to_index := insert_loop E packet_data 0 (id_to_index s)\<rparr>)"

text \<open>
  \<^verbatim>\<open>DataSender\<close>: the packet is built from the selected array (line 147), the selector
  is flipped (line 149), and only then is the packet given to the messenger (line 150).
  \<^verbatim>\<open>DrawBoundary\<close> draws debug lines only and has no counterpart here.
\<close>

definition DataSender ::
  "('a, 'g) externals \<Rightarrow> ('a, 'g) CollisionStage \<Rightarrow> ('a, 'g) CollisionStage" where
  "DataSender E s =
     (let packet = (planner_messenger_state s, current_planner_frame s);
          s1 = s\<lparr>frame_selector := \<not> frame_selector s,
                 trace := trace s @ [SelectorFlipped]\<rparr>
      in s1\<lparr>planner_messenger_state := SendData E packet,
            trace := trace s1 @ [PacketSent (fst packet) (snd packet)]\<rparr>)"

section \<open>Notions used to state the properties\<close>

text \<open>
  The extension length as the specification writes it for speeds below the highway
  threshold.
\<close>

definition additive_extension :: "real \<Rightarrow> real" where
  "additive_extension speed =
     max (sqrt (7 * speed)) (3 / 2) + max (speed * (1 / 2)) (3 / 2) + 3 / 2"

text \<open>
  The distance that \<open>NegotiateCollision\<close> computes between the bounding box of \<open>a\<close>
  and the geodesic boundary of \<open>b\<close>: \<^verbatim>\<open>reference_vehicle_to_other_geodesic\<close> in the
  call for \<open>(a, b)\<close>, \<^verbatim>\<open>other_vehicle_to_reference_geodesic\<close> in the call for \<open>(b, a)\<close>.
\<close>

definition static_to_geodesic_distance ::
  "('a, 'g) externals \<Rightarrow> ('a, 'g) CollisionStage \<Rightarrow> 'a \<Rightarrow> 'a \<Rightarrow> failure + real" where
  "static_to_geodesic_distance E s a b =
     bnd (bnd (GetBoundary E a) (GetPolygon E)) (\<lambda>static_polygon.
     bnd (bnd (GetGeodesicBoundary E s b) (GetPolygon E)) (\<lambda>geodesic_polygon.
       bg_distance E static_polygon geodesic_polygon))"







section \<open>A small world for concrete runs\<close>

text \<open>
  Actors are numbers and stand at \<open>x = 10 * a\<close>, heading along the x axis, at rest, with
  half-extents \<open>(6, 1, 1)\<close>; actor 8 is 5 units above the others and actor 6 cannot be
  queried. The geometry library works on bounding boxes, which is exact for the
  axis-parallel rectangles of this world (the distance is the larger of the two gaps).
  The grid returns the identities it holds. The first frame carries the vehicles 5, 9
  and 7, every later frame vehicle 9 alone.
\<close>

fun box_of :: "Polygon \<Rightarrow> real \<times> real \<times> real \<times> real" where
  "box_of [] = (0, 0, 0, 0)"
| "box_of [(px, py)] = (px, px, py, py)"
| "box_of ((px, py) # ps) =
     (case box_of ps of (lo_x, hi_x, lo_y, hi_y) \<Rightarrow>
        (min px lo_x, max px hi_x, min py lo_y, max py hi_y))"

definition box_intersection :: "Polygon \<Rightarrow> Polygon \<Rightarrow> failure + Polygon list" where
  "box_intersection P Q =
     (case (box_of P, box_of Q) of ((a, b, c, d), (a', b', c', d')) \<Rightarrow>
        let lo_x = max a a'; hi_x = min b b'; lo_y = max c c'; hi_y = min d d'
        in Inr (if lo_x \<le> hi_x \<and> lo_y \<le> hi_y
                then [[(lo_x, lo_y), (lo_x, hi_y), (hi_x, hi_y), (hi_x, lo_y), (lo_x, lo_y)]]
                else []))"

definition box_area :: "Polygon \<Rightarrow> real" where
  "box_area P = (case box_of P of (a, b, c, d) \<Rightarrow> (b - a) * (d - c))"

definition box_distance :: "Polygon \<Rightarrow> Polygon \<Rightarrow> failure + real" where
  "box_distance P Q =
     (if P = [] \<or> Q = [] then Inl Exception
      else case (box_of P, box_of Q) of ((a, b, c, d), (a', b', c', d')) \<Rightarrow>
        Inr (max 0 (max (max (a - b') (a' - b)) (max (c - d') (c' - d)))))"

definition sample_waypoint :: "real \<Rightarrow> SimpleWaypoint" where
  "sample_waypoint d = \<lparr>wp_location = vec d 0 0, wp_forward = vec 1 0 0\<rparr>"

definition sample_frame :: "int \<Rightarrow> nat LocalizationToCollisionData list" where
  "sample_frame st =
     (if st = 0
      then [\<lparr>actor = 5, buffer = [sample_waypoint 50, sample_waypoint 52]\<rparr>,
            \<lparr>actor = 9, buffer = []\<rparr>,
            \<lparr>actor = 7, buffer = [sample_waypoint 70]\<rparr>]
      else [\<lparr>actor = 9, buffer = [sample_waypoint 90]\<rparr>])"

definition sample_world :: "(nat, nat list) externals" where
  "sample_world =
     \<lparr>GetId = (\<lambda>a. a),
      GetLocation = (\<lambda>a. if a = 6 then Inl Exception
                           else Inr (vec (10 * real a) 0 (if a = 8 then 5 else 0))),
      GetVelocity = (\<lambda>a. Inr (vec 0 0 0)),
      GetBoundingBox = (\<lambda>a. Inr (vec 6 1 1)),
      GetForwardVector = (\<lambda>a. Inr (vec 1 0 0)),
      IsAlive = (\<lambda>a. a \<noteq> 6),
      world_vehicles = Inr [],
      now = 0,
      GetActors = (\<lambda>grid a. (grid, grid)),
      UpdateGrid = (\<lambda>grid a. if a \<in> set grid then grid else grid @ [a]),
      EraseActor = (\<lambda>grid actor_id. removeAll actor_id grid),
      DistanceSquared = (\<lambda>p q. (vec_x p - vec_x q)\<^sup>2 + (vec_y p - vec_y q)\<^sup>2
                                   + (vec_z p - vec_z q)\<^sup>2),
      Length = (\<lambda>v. sqrt ((vec_x v)\<^sup>2 + (vec_y v)\<^sup>2 + (vec_z v)\<^sup>2)),
      MakeUnitVector =
        (\<lambda>v. vscale (1 / sqrt ((vec_x v)\<^sup>2 + (vec_y v)\<^sup>2 + (vec_z v)\<^sup>2)) v),
      WaypointDistanceSquared =
        (\<lambda>p q. (vec_x (wp_location p) - vec_x (wp_location q))\<^sup>2
              + (vec_y (wp_location p) - vec_y (wp_location q))\<^sup>2
              + (vec_z (wp_location p) - vec_z (wp_location q))\<^sup>2),
      to_string = (\<lambda>r. r),
      bg_intersection = box_intersection,
      bg_area = box_area,
      bg_distance = box_distance,
      ReceiveData = (\<lambda>st. (st + 1, sample_frame st)),
      SendData = (\<lambda>packet. fst packet + 1)\<rparr>"

definition sample_stage :: "(nat, nat list) CollisionStage" where
  "sample_stage = CollisionStage_init 0 0 3 0 []"

definition first_tick :: "(nat, nat list) CollisionStage" where
  "first_tick = DataReceiver sample_world sample_stage"

definition second_tick :: "(nat, nat list) CollisionStage" where
  "second_tick = DataReceiver sample_world first_tick"


section \<open>Basic facts\<close>

lemmas consts_defs = SEARCH_RADIUS_def VERTICAL_OVERLAP_THRESHOLD_def ZERO_AREA_def
  BOUNDARY_EXTENSION_MINIMUM_def EXTENSION_SQUARE_POINT_def TIME_HORIZON_def
  HIGHWAY_SPEED_def HIGHWAY_TIME_HORIZON_def

lemma bnd_simps [simp]: "bnd (Inl e) f = Inl e" "bnd (Inr v) f = f v"
  by (simp_all add: bnd_def)

lemma bnd_eq_Inr: "bnd m f = Inr r \<longleftrightarrow> (\<exists>v. m = Inr v \<and> f v = Inr r)"
  by (cases m) simp_all

lemma bnd_Inr: "bnd m Inr = m"
  by (cases m) simp_all

section \<open>The extension length\<close>

lemma additive_extension_mono:
  assumes "u \<le> v" shows "additive_extension u \<le> additive_extension v"
proof -
  have "sqrt (7 * u) \<le> sqrt (7 * v)" using assms by simp
  then have "max (sqrt (7 * u)) (3 / 2) \<le> max (sqrt (7 * v)) (3 / 2)" by linarith
  moreover have "max (u * (1 / 2)) (3 / 2) \<le> max (v * (1 / 2)) (3 / 2)" using assms by simp
  ultimately show ?thesis unfolding additive_extension_def by linarith
qed

lemma additive_extension_threshold:
  "additive_extension (3640889 / 262144) < 5 * (3640889 / 262144)"
proof -
  have "sqrt (7 * (3640889 / 262144 :: real)) \<le> 10"
    by (rule real_le_lsqrt) (simp_all add: power2_eq_square)
  then show ?thesis unfolding additive_extension_def by simp
qed

lemma bbox_extension_low:
  "velocity \<le> HIGHWAY_SPEED \<Longrightarrow> bbox_extension velocity = additive_extension velocity"
  by (simp add: bbox_extension_def additive_extension_def consts_defs Let_def)

lemma bbox_extension_high:
  "velocity > HIGHWAY_SPEED \<Longrightarrow> bbox_extension velocity = 5 * velocity"
  by (simp add: bbox_extension_def consts_defs Let_def)

lemma HIGHWAY_SPEED_eq: "HIGHWAY_SPEED = 3640889 / 262144"
  by (simp add: HIGHWAY_SPEED_def)

lemma bbox_extension_mono:
  assumes "u \<le> v" shows "bbox_extension u \<le> bbox_extension v"
proof (cases "v \<le> HIGHWAY_SPEED")
  case True
  then show ?thesis using assms by (simp add: bbox_extension_low additive_extension_mono)
next
  case False
  then have hv: "v > HIGHWAY_SPEED" by simp
  show ?thesis
  proof (cases "u \<le> HIGHWAY_SPEED")
    case True
    then have "bbox_extension u = additive_extension u" by (rule bbox_extension_low)
    also have "\<dots> \<le> additive_extension (3640889 / 262144)"
      using True by (intro additive_extension_mono) (simp add: HIGHWAY_SPEED_eq)
    also have "\<dots> < 5 * (3640889 / 262144)" by (rule additive_extension_threshold)
    also have "\<dots> < 5 * v" using hv by (simp add: HIGHWAY_SPEED_eq)
    finally show ?thesis using hv by (simp add: bbox_extension_high)
  next
    case False
    then show ?thesis using hv assms by (simp add: bbox_extension_high)
  qed
qed


section \<open>Negotiation and overlap\<close>

lemma NegotiateCollision_True:
  assumes "NegotiateCollision E s a b = Inr True"
  shows "\<exists>d_ref d_other. static_to_geodesic_distance E s a b = Inr d_ref \<and>
           static_to_geodesic_distance E s b a = Inr d_other \<and> d_ref > d_other"
  using assms unfolding NegotiateCollision_def static_to_geodesic_distance_def Let_def
  by (auto simp: bnd_eq_Inr split: if_splits)





section \<open>Boundaries\<close>








section \<open>The identity map\<close>

lemma insert_loop_keeps: "m k = Some v \<Longrightarrow> insert_loop E fr n m k = Some v"
proof (induction fr arbitrary: n m)
  case Nil
  then show ?case by simp
next
  case (Cons e rest)
  show ?case
  proof (cases "m (GetId E (actor e))")
    case None
    with Cons.prems have "(m(GetId E (actor e) \<mapsto> n)) k = Some v" by auto
    then have "insert_loop E rest (Suc n) (m(GetId E (actor e) \<mapsto> n)) k = Some v"
      by (rule Cons.IH)
    with None show ?thesis by simp
  next
    case (Some w)
    have "insert_loop E rest (Suc n) m k = Some v" using Cons.prems by (rule Cons.IH)
    with Some show ?thesis by simp
  qed
qed

lemma insert_loop_dom:
  "dom (insert_loop E fr n m) = dom m \<union> (\<lambda>e. GetId E (actor e)) ` set fr"
  by (induction fr arbitrary: n m) (auto split: option.splits)

lemma insert_loop_fresh:
  "distinct (map (\<lambda>e. GetId E (actor e)) fr) \<Longrightarrow> \<forall>e\<in>set fr. m (GetId E (actor e)) = None \<Longrightarrow>
   j < length fr \<Longrightarrow> insert_loop E fr n m (GetId E (actor (fr ! j))) = Some (n + j)"
proof (induction fr arbitrary: n m j)
  case Nil
  then show ?case by simp
next
  case (Cons e rest)
  let ?m = "m(GetId E (actor e) \<mapsto> n)"
  from Cons.prems(2) have step: "insert_loop E (e # rest) n m = insert_loop E rest (Suc n) ?m"
    by simp
  show ?case
  proof (cases j)
    case 0
    then show ?thesis using step by (simp add: insert_loop_keeps)
  next
    case (Suc j')
    have fresh: "\<forall>e'\<in>set rest. ?m (GetId E (actor e')) = None"
      using Cons.prems(1,2) by (auto simp: image_iff)
    from Cons.prems(1) have "distinct (map (\<lambda>e. GetId E (actor e)) rest)" by simp
    moreover from Cons.prems(3) Suc have "j' < length rest" by simp
    ultimately have "insert_loop E rest (Suc n) ?m (GetId E (actor (rest ! j'))) = Some (Suc n + j')"
      using fresh by (intro Cons.IH)
    with Suc step show ?thesis by (simp del: fun_upd_apply)
  qed
qed

lemma insert_loop_bij:
  assumes d: "distinct (map (\<lambda>e. GetId E (actor e)) fr)"
  shows "bij_betw (\<lambda>k. the (insert_loop E fr 0 Map.empty k)) ((\<lambda>e. GetId E (actor e)) ` set fr) {0 ..< length fr}"
proof -
  let ?ids = "map (\<lambda>e. GetId E (actor e)) fr"
  have at: "\<And>j. j < length fr \<Longrightarrow> insert_loop E fr 0 Map.empty (?ids ! j) = Some j"
    using insert_loop_fresh [OF d, of Map.empty _ 0] by simp
  show ?thesis
  proof (rule bij_betw_byWitness [where f' = "\<lambda>j. ?ids ! j"])
    show "\<forall>a\<in>(\<lambda>e. GetId E (actor e)) ` set fr. ?ids ! the (insert_loop E fr 0 Map.empty a) = a"
    proof
      fix a assume "a \<in> (\<lambda>e. GetId E (actor e)) ` set fr"
      then have "a \<in> set ?ids" by simp
      then obtain j where "j < length fr" "?ids ! j = a" by (auto simp: in_set_conv_nth)
      with at [of j] show "?ids ! the (insert_loop E fr 0 Map.empty a) = a" by auto
    qed
    show "\<forall>a'\<in>{0 ..< length fr}. the (insert_loop E fr 0 Map.empty (?ids ! a')) = a'"
      using at by simp
    show "(\<lambda>k. the (insert_loop E fr 0 Map.empty k)) ` (\<lambda>e. GetId E (actor e)) ` set fr \<subseteq> {0 ..< length fr}"
    proof
      fix n assume "n \<in> (\<lambda>k. the (insert_loop E fr 0 Map.empty k)) ` (\<lambda>e. GetId E (actor e)) ` set fr"
      then obtain a where a: "a \<in> set ?ids" and n: "n = the (insert_loop E fr 0 Map.empty a)" by auto
      from a obtain j where "j < length fr" "?ids ! j = a" by (auto simp: in_set_conv_nth)
      with at [of j] n show "n \<in> {0 ..< length fr}" by auto
    qed
    show "(\<lambda>j. ?ids ! j) ` {0 ..< length fr} \<subseteq> (\<lambda>e. GetId E (actor e)) ` set fr"
      by auto
  qed
qed

lemma DataReceiver_map:
  assumes "ReceiveData E (localization_messenger_state s) = (packet_id, frame)"
  shows "localization_frame (DataReceiver E s) = frame"
    and "id_to_index (DataReceiver E s) = insert_loop E frame 0 (id_to_index s)"
    and "frame_selector (DataReceiver E s) = frame_selector s"
    and "planner_frame_a (DataReceiver E s) = planner_frame_a s"
    and "planner_frame_b (DataReceiver E s) = planner_frame_b s"
  using assms by (simp_all add: DataReceiver_def)

section \<open>What Action changes\<close>

lemma write_hazard_Inr:
  assumes "write_hazard r i h s = Inr s'"
  shows "frame_selector s' = frame_selector s"
    and "read_frame s' r = (read_frame s r)[i := h]"
    and "localization_frame s' = localization_frame s"
    and "id_to_index s' = id_to_index s"
    and "unregistered_actors s' = unregistered_actors s"
    and "i < length (read_frame s r)"
  using assms
  by (cases r; auto simp: write_hazard_def read_frame_def split: if_splits)+

lemma write_hazard_other:
  assumes "write_hazard r i h s = Inr s'" "r' \<noteq> r"
  shows "read_frame s' r' = read_frame s r'"
  using assms
  by (cases r; cases r'; auto simp: write_hazard_def read_frame_def split: if_splits)

lemma read_frame_upd [simp]:
  "read_frame (s\<lparr>vicinity_grid := g\<rparr>) r = read_frame s r"
  "read_frame (s\<lparr>trace := t\<rparr>) r = read_frame s r"
  "read_frame (s\<lparr>unregistered_actors := u\<rparr>) r = read_frame s r"
  "read_frame (s\<lparr>last_world_actors_pass_instance := c\<rparr>) r = read_frame s r"
  by (cases r; simp add: read_frame_def)+

lemma vehicle_step_cases:
  assumes "vehicle_step E negotiate r s i = Inr s'"
  obtains data ids g h lg where
    "vector_at (localization_frame s) i = Inr data"
    "GetActors E (vicinity_grid s) (actor data) = (ids, g)"
    "candidates_loop E (negotiate (s\<lparr>vicinity_grid := g\<rparr>)) (s\<lparr>vicinity_grid := g\<rparr>)
       (actor data) (GetId E (actor data)) ids False [] = Inr (h, lg)"
    "write_hazard r i h (s\<lparr>vicinity_grid := g, trace := trace s @ lg\<rparr>) = Inr s'"
proof -
  from assms obtain data where d: "vector_at (localization_frame s) i = Inr data"
    unfolding vehicle_step_def by (auto simp: bnd_eq_Inr)
  obtain ids g where g: "GetActors E (vicinity_grid s) (actor data) = (ids, g)" by fastforce
  from assms d g obtain h lg where
    "candidates_loop E (negotiate (s\<lparr>vicinity_grid := g\<rparr>)) (s\<lparr>vicinity_grid := g\<rparr>)
       (actor data) (GetId E (actor data)) ids False [] = Inr (h, lg)"
    "write_hazard r i h (s\<lparr>vicinity_grid := g, trace := trace s @ lg\<rparr>) = Inr s'"
    unfolding vehicle_step_def Let_def by (auto simp: bnd_eq_Inr)
  with d g that show thesis by blast
qed

lemma vehicle_step_Inr:
  assumes "vehicle_step E negotiate r s i = Inr s'"
  shows "frame_selector s' = frame_selector s"
    and "localization_frame s' = localization_frame s"
    and "id_to_index s' = id_to_index s"
    and "unregistered_actors s' = unregistered_actors s"
    and "length (read_frame s' r) = length (read_frame s r)"
proof -
  from assms obtain g h lg where
    w: "write_hazard r i h (s\<lparr>vicinity_grid := g, trace := trace s @ lg\<rparr>) = Inr s'"
    by (rule vehicle_step_cases)
  from write_hazard_Inr [OF w]
  show "frame_selector s' = frame_selector s"
    and "localization_frame s' = localization_frame s"
    and "id_to_index s' = id_to_index s"
    and "unregistered_actors s' = unregistered_actors s"
    and "length (read_frame s' r) = length (read_frame s r)"
    by simp_all
qed

lemma vehicle_step_other:
  assumes "vehicle_step E negotiate r s i = Inr s'" "r' \<noteq> r"
  shows "read_frame s' r' = read_frame s r'"
proof -
  from assms(1) obtain g h lg where
    w: "write_hazard r i h (s\<lparr>vicinity_grid := g, trace := trace s @ lg\<rparr>) = Inr s'"
    by (rule vehicle_step_cases)
  from write_hazard_other [OF w assms(2)] show ?thesis by simp
qed

lemma vehicles_loop_Inr:
  "vehicles_loop E negotiate r is s = Inr s' \<Longrightarrow>
     frame_selector s' = frame_selector s \<and> localization_frame s' = localization_frame s \<and>
     id_to_index s' = id_to_index s \<and> unregistered_actors s' = unregistered_actors s \<and>
     length (read_frame s' r) = length (read_frame s r) \<and>
     (\<forall>r'. r' \<noteq> r \<longrightarrow> read_frame s' r' = read_frame s r')"
proof (induction "is" arbitrary: s)
  case Nil
  then show ?case by simp
next
  case (Cons i rest)
  from Cons.prems obtain s1 where s1: "vehicle_step E negotiate r s i = Inr s1"
    and rest: "vehicles_loop E negotiate r rest s1 = Inr s'"
    by (auto simp: bnd_eq_Inr)
  from Cons.IH [OF rest] vehicle_step_Inr [OF s1] vehicle_step_other [OF s1]
  show ?case by simp
qed

lemma scan_world_actors_keeps:
  "frame_selector (scan_world_actors E s as) = frame_selector s \<and>
   planner_frame_a (scan_world_actors E s as) = planner_frame_a s \<and>
   planner_frame_b (scan_world_actors E s as) = planner_frame_b s \<and>
   localization_frame (scan_world_actors E s as) = localization_frame s \<and>
   id_to_index (scan_world_actors E s as) = id_to_index s"
  by (induction as arbitrary: s) (simp_all add: Let_def)

lemma update_unregistered_Inr:
  assumes "update_unregistered E s = Inr s'"
  shows "frame_selector s' = frame_selector s \<and> planner_frame_a s' = planner_frame_a s \<and>
    planner_frame_b s' = planner_frame_b s \<and> localization_frame s' = localization_frame s \<and>
    id_to_index s' = id_to_index s"
proof -
  define scanned where "scanned =
    (if now E - last_world_actors_pass_instance s > 1 / 2
     then bnd (world_vehicles E) (\<lambda>world_actors.
            Inr ((scan_world_actors E s world_actors)
                   \<lparr>last_world_actors_pass_instance := now E\<rparr>))
     else Inr s)"
  define refreshed where "refreshed = (\<lambda>s1 :: ('a, 'b) CollisionStage.
    case refresh_loop E (unregistered_actors s1) (vicinity_grid s1) [] of
      (grid, actor_ids_to_erase) \<Rightarrow>
        (Inr (s1\<lparr>vicinity_grid := grid,
                unregistered_actors :=
                  foldl (\<lambda>table actor_id. filter (\<lambda>entry. fst entry \<noteq> actor_id) table)
                    (unregistered_actors s1) actor_ids_to_erase\<rparr>) :: failure + ('a, 'b) CollisionStage))"
  have "update_unregistered E s = bnd scanned refreshed"
    by (simp add: update_unregistered_def Let_def scanned_def refreshed_def)
  with assms obtain s1 where s1: "scanned = Inr s1" and s': "refreshed s1 = Inr s'"
    by (auto simp: bnd_eq_Inr)
  from s1 have "frame_selector s1 = frame_selector s \<and> planner_frame_a s1 = planner_frame_a s \<and>
    planner_frame_b s1 = planner_frame_b s \<and> localization_frame s1 = localization_frame s \<and>
    id_to_index s1 = id_to_index s"
    unfolding scanned_def
    by (auto simp: bnd_eq_Inr scan_world_actors_keeps split: if_splits)
  moreover from s' have "frame_selector s' = frame_selector s1 \<and> planner_frame_a s' = planner_frame_a s1 \<and>
    planner_frame_b s' = planner_frame_b s1 \<and> localization_frame s' = localization_frame s1 \<and>
    id_to_index s' = id_to_index s1"
    unfolding refreshed_def
    by (cases "refresh_loop E (unregistered_actors s1) (vicinity_grid s1) []") auto
  ultimately show ?thesis by simp
qed

lemma Action_with_Inr:
  assumes "Action_with E negotiate start_index end_index s = Inr s'"
  shows "frame_selector s' = frame_selector s"
    and "localization_frame s' = localization_frame s"
    and "id_to_index s' = id_to_index s"
    and "r \<noteq> current_planner_frame s \<Longrightarrow> read_frame s' r = read_frame s r"
proof -
  from assms obtain s1 where
    s1: "(if start_index = 0 then update_unregistered E s else Inr s) = Inr s1"
    and l: "vehicles_loop E negotiate (current_planner_frame s) [start_index ..< Suc end_index] s1 = Inr s'"
    unfolding Action_with_def Let_def by (auto simp: bnd_eq_Inr)
  from s1 have k: "frame_selector s1 = frame_selector s \<and> planner_frame_a s1 = planner_frame_a s \<and>
    planner_frame_b s1 = planner_frame_b s \<and> localization_frame s1 = localization_frame s \<and>
    id_to_index s1 = id_to_index s"
    using update_unregistered_Inr [of E s s1] by (auto split: if_splits)
  from vehicles_loop_Inr [OF l] k
  show "frame_selector s' = frame_selector s"
    and "localization_frame s' = localization_frame s"
    and "id_to_index s' = id_to_index s"
    by simp_all
  from k have "read_frame s1 r = read_frame s r" by (cases r) (simp_all add: read_frame_def)
  with vehicles_loop_Inr [OF l]
  show "read_frame s' r = read_frame s r" if "r \<noteq> current_planner_frame s"
    using that by simp
qed

lemma read_frame_DataSender: "read_frame (DataSender E s) r = read_frame s r"
  by (cases r) (simp_all add: DataSender_def read_frame_def Let_def)

lemma read_frame_DataReceiver: "read_frame (DataReceiver E s) r = read_frame s r"
  by (cases r) (simp_all add: DataReceiver_def read_frame_def split: prod.splits)

lemma frame_selector_DataReceiver: "frame_selector (DataReceiver E s) = frame_selector s"
  by (simp add: DataReceiver_def split: prod.splits)

section \<open>The candidate loop\<close>

lemma candidates_loop_True:
  "candidates_loop E neg s ego eid cs True lg = Inr (True, lg)"
  by (cases cs) simp_all

lemma candidates_loop_result:
  assumes "\<forall>c\<in>set cs. candidate_try E neg s ego eid c \<noteq> Inl Undefined"
  shows "candidates_loop E neg s ego eid cs False lg =
           Inr (\<exists>c\<in>set cs. candidate_try E neg s ego eid c = Inr True,
                lg @ concat (map (\<lambda>c. if candidate_try E neg s ego eid c = Inl Exception
                                        then [LogWarning ''Encountered problem while determining collision \<newline>'',
                                              LogInfo ''Actor might not be alive \<newline>'']
                                        else [])
                               (takeWhile (\<lambda>c. candidate_try E neg s ego eid c \<noteq> Inr True) cs)))"
  using assms
proof (induction cs arbitrary: lg)
  case Nil
  then show ?case by simp
next
  case (Cons c rest)
  from Cons.prems have rest: "\<forall>c\<in>set rest. candidate_try E neg s ego eid c \<noteq> Inl Undefined"
    and c: "candidate_try E neg s ego eid c \<noteq> Inl Undefined" by simp_all
  show ?case
  proof (cases "candidate_try E neg s ego eid c")
    case (Inl e)
    with c have e: "e = Exception" by (cases e) simp_all
    with Inl Cons.IH [OF rest, of "lg @ [LogWarning ''Encountered problem while determining collision \<newline>'',
                                         LogInfo ''Actor might not be alive \<newline>'']"] show ?thesis
      by simp
  next
    case (Inr h)
    show ?thesis
    proof (cases h)
      case True
      with Inr show ?thesis by (simp add: candidates_loop_True)
    next
      case False
      with Inr Cons.IH [OF rest, of lg] show ?thesis by simp
    qed
  qed
qed

lemma candidate_try_far:
  assumes "GetLocation E ego = Inr le" "resolve_actor s c = Inr (Some a)" "GetLocation E a = Inr la"
    "DistanceSquared E le la > 400"
  shows "candidate_try E neg s ego eid c = Inr False"
  using assms by (simp add: candidate_try_def SEARCH_RADIUS_def Let_def)

lemma candidate_try_depends:
  assumes "candidate_try E neg s ego eid c \<noteq> candidate_try E neg' s ego eid c"
  shows "\<exists>a le la. c \<noteq> eid \<and> resolve_actor s c = Inr (Some a) \<and> GetLocation E ego = Inr le \<and>
           GetLocation E a = Inr la \<and> DistanceSquared E le la \<le> 400 \<and> neg ego a \<noteq> neg' ego a"
proof -
  from assms have ne: "c \<noteq> eid" by (auto simp: candidate_try_def)
  have unfolded: "candidate_try E n s ego eid c =
      bnd (resolve_actor s c) (\<lambda>actor_handle.
      bnd (GetLocation E ego) (\<lambda>ego_location.
      bnd (case actor_handle of None \<Rightarrow> Inl Undefined | Some a \<Rightarrow> Inr a) (\<lambda>a.
      bnd (GetLocation E a) (\<lambda>actor_location.
        if DistanceSquared E ego_location actor_location \<le> 400
        then n ego a else Inr False))))" for n
    using ne by (simp add: candidate_try_def SEARCH_RADIUS_def Let_def bnd_Inr cong: if_cong)
  show ?thesis
  proof (cases "resolve_actor s c")
    case (Inl e)
    from Inl assms show ?thesis by (simp add: unfolded)
  next
    case (Inr h)
    note r = Inr
    show ?thesis
    proof (cases "GetLocation E ego")
      case (Inl e)
      from r Inl assms show ?thesis by (simp add: unfolded)
    next
      case (Inr le)
      note l = Inr
      show ?thesis
      proof (cases h)
        case None
        from r l None assms show ?thesis by (simp add: unfolded)
      next
        case (Some a)
        show ?thesis
        proof (cases "GetLocation E a")
          case (Inl e)
          from r l Some Inl assms show ?thesis by (simp add: unfolded)
        next
          case (Inr la)
          from r l Some Inr ne assms have "DistanceSquared E le la \<le> 400 \<and> neg ego a \<noteq> neg' ego a"
            by (auto simp: unfolded split: if_splits)
          with ne r l Some Inr show ?thesis by blast
        qed
      qed
    qed
  qed
qed


section \<open>Runs of the small world\<close>

lemma sample_world_simps [simp]:
  "GetId sample_world a = a"
  "GetLocation sample_world a = (if a = 6 then Inl Exception
                           else Inr (vec (10 * real a) 0 (if a = 8 then 5 else 0)))"
  "GetVelocity sample_world a = Inr (vec 0 0 0)"
  "GetBoundingBox sample_world a = Inr (vec 6 1 1)"
  "GetForwardVector sample_world a = Inr (vec 1 0 0)"
  "GetActors sample_world grid a = (grid, grid)"
  "DistanceSquared sample_world p q = (vec_x p - vec_x q)\<^sup>2 + (vec_y p - vec_y q)\<^sup>2
                                   + (vec_z p - vec_z q)\<^sup>2"
  "Length sample_world v = sqrt ((vec_x v)\<^sup>2 + (vec_y v)\<^sup>2 + (vec_z v)\<^sup>2)"
  "to_string sample_world r = r"
  "bg_intersection sample_world = box_intersection"
  "bg_area sample_world = box_area"
  "bg_distance sample_world = box_distance"
  "ReceiveData sample_world st = (st + 1, sample_frame st)"
  "SendData sample_world packet = fst packet + 1"
  by (simp_all add: sample_world_def)

lemma first_tick_simps [simp]:
  "localization_frame first_tick = sample_frame 0"
  "id_to_index first_tick = [5 \<mapsto> 0, 9 \<mapsto> 1, 7 \<mapsto> 2]"
  "unregistered_actors first_tick = []"
  "frame_selector first_tick = True"
  "planner_frame_a first_tick = [False, False, False]"
  "planner_frame_b first_tick = [False, False, False]"
  "trace first_tick = []"
  by (simp_all add: first_tick_def DataReceiver_def sample_stage_def CollisionStage_init_def
      sample_frame_def numeral_3_eq_3 numeral_2_eq_2)

lemma second_tick_simps [simp]:
  "localization_frame second_tick = sample_frame 1"
  "id_to_index second_tick = [5 \<mapsto> 0, 9 \<mapsto> 1, 7 \<mapsto> 2]"
  "unregistered_actors second_tick = []"
  "frame_selector second_tick = True"
  "planner_frame_a second_tick = [False, False, False]"
  "planner_frame_b second_tick = [False, False, False]"
  "trace second_tick = []"
  by (simp_all add: second_tick_def DataReceiver_def sample_frame_def
       first_tick_def sample_stage_def CollisionStage_init_def numeral_3_eq_3 numeral_2_eq_2)

lemma box_intersection_sym:
  "map_sum id set (box_intersection P Q) = map_sum id set (box_intersection Q P)"
  by (auto simp: box_intersection_def Let_def max.commute min.commute split: prod.splits)

lemma GetBoundary_sample:
  "a \<noteq> 6 \<Longrightarrow> GetBoundary sample_world a =
     Inr [vec (10 * real a + 6) (-1) (if a = 8 then 5 else 0),
          vec (10 * real a - 6) (-1) (if a = 8 then 5 else 0),
          vec (10 * real a - 6) 1 (if a = 8 then 5 else 0),
          vec (10 * real a + 6) 1 (if a = 8 then 5 else 0)]"
  by (simp add: GetBoundary_def Let_def vec_def vadd_def vsub_def vscale_def)

section \<open>The claims\<close>

subsection \<open>C1: the identity map after DataReceiver\<close>

text \<open>
  C1 fails on the code. \<open>DataReceiver\<close> inserts the identities of the new frame into
  the map without clearing it, and an insertion never replaces an entry. After the first
  frame (vehicles 5, 9, 7) the map is the bijection onto \<open>[0, 3)\<close>; after the second
  frame (vehicle 9 alone, at index 0) the map still holds the entries of the first frame:
  9 is sent to 1, which is no index of the frame, and 5 and 7 are still there. The
  lookup of line 105 then resolves candidate 5 to the handle of vehicle 9, and for
  candidate 9 \<^verbatim>\<open>at\<close> throws.
\<close>

theorem id_to_index_stale_after_second_frame:
  "map actor (localization_frame first_tick) = [5, 9, 7] \<and>
   id_to_index first_tick 5 = Some 0 \<and> id_to_index first_tick 9 = Some 1 \<and>
   id_to_index first_tick 7 = Some 2 \<and>
   map actor (localization_frame second_tick) = [9] \<and>
   id_to_index second_tick 5 = Some 0 \<and> id_to_index second_tick 9 = Some 1 \<and>
   id_to_index second_tick 7 = Some 2 \<and>
   resolve_actor second_tick 5 = Inr (Some 9) \<and>
   resolve_actor second_tick 9 = Inl Exception"
  by (simp add: sample_frame_def resolve_actor_def vector_at_def)

subsection \<open>C2: at most one side of a pair is hazardous\<close>

text \<open>
  C2. For two vehicles \<open>a\<close> and \<open>b\<close> in the same state of the stage,
  \<open>NegotiateCollision\<close> never returns true for both \<open>(a, b)\<close> and \<open>(b, a)\<close>; and when
  the distance from the box of \<open>a\<close> to the geodesic boundary of \<open>b\<close> equals the distance
  from the box of \<open>b\<close> to the geodesic boundary of \<open>a\<close>, neither call returns true.
\<close>

theorem NegotiateCollision_at_most_one_side:
  "\<not> (NegotiateCollision E s a b = Inr True \<and> NegotiateCollision E s b a = Inr True) \<and>
   (static_to_geodesic_distance E s a b = Inr d \<and> static_to_geodesic_distance E s b a = Inr d \<longrightarrow>
      NegotiateCollision E s a b \<noteq> Inr True \<and> NegotiateCollision E s b a \<noteq> Inr True)"
  using NegotiateCollision_True [of E s a b] NegotiateCollision_True [of E s b a] by auto

text \<open>
  Witness for C2: the boxes of the vehicles 3 and 4 overlap by 2 units, each box touches
  the other's boundary (distance 0 both ways), and both calls return false.
\<close>

theorem NegotiateCollision_at_most_one_side_witness:
  "CheckOverlap sample_world
     [vec 36 (-1) 0, vec 24 (-1) 0, vec 24 1 0, vec 36 1 0]
     [vec 46 (-1) 0, vec 34 (-1) 0, vec 34 1 0, vec 46 1 0] = Inr True \<and>
   static_to_geodesic_distance sample_world sample_stage 3 4 = Inr 0 \<and>
   static_to_geodesic_distance sample_world sample_stage 4 3 = Inr 0 \<and>
   NegotiateCollision sample_world sample_stage 3 4 \<noteq> Inr True \<and>
   NegotiateCollision sample_world sample_stage 4 3 \<noteq> Inr True \<and>
   NegotiateCollision sample_world sample_stage 3 4 = Inr False"
proof -
  have overlap: "CheckOverlap sample_world
     [vec 36 (-1) 0, vec 24 (-1) 0, vec 24 1 0, vec 36 1 0]
     [vec 46 (-1) 0, vec 34 (-1) 0, vec 34 1 0, vec 46 1 0] = Inr True"
    by (simp add: CheckOverlap_def GetPolygon_def box_intersection_def box_area_def vec_def
        ZERO_AREA_def Let_def)
  have tie: "static_to_geodesic_distance sample_world sample_stage 3 4 = Inr 0 \<and>
        static_to_geodesic_distance sample_world sample_stage 4 3 = Inr 0"
    by (simp add: static_to_geodesic_distance_def GetGeodesicBoundary_def
        sample_stage_def CollisionStage_init_def GetBoundary_sample GetPolygon_def vec_def
        box_distance_def)
  have run: "NegotiateCollision sample_world sample_stage 3 4 = Inr False"
    by (simp add: NegotiateCollision_def GetGeodesicBoundary_def
        sample_stage_def CollisionStage_init_def GetBoundary_sample GetPolygon_def vec_def
        box_distance_def CheckOverlap_def box_intersection_def box_area_def consts_defs Let_def)
  from tie NegotiateCollision_at_most_one_side [of sample_world sample_stage 3 4 0]
  have "NegotiateCollision sample_world sample_stage 3 4 \<noteq> Inr True \<and>
        NegotiateCollision sample_world sample_stage 4 3 \<noteq> Inr True"
    by blast
  with overlap tie run show ?thesis by blast
qed

subsection \<open>C3: the extension length as a function of speed\<close>

text \<open>
  C3, as amended. The threshold is the float \<^verbatim>\<open>50 / 3.6f\<close>, which is
  \<open>3640889 / 262144\<close> (about 13.8888893). For a speed up to and including the
  threshold the extension is
  \<open>max (sqrt (7 speed)) 1.5 + max (0.5 speed) 1.5 + 1.5\<close>; strictly above the
  threshold it is \<open>5 speed\<close>. The extension never decreases when the speed grows, across
  the threshold as well as on either side of it.
\<close>

theorem bbox_extension_by_speed:
  assumes "0 \<le> u" and "u \<le> v"
  shows "HIGHWAY_SPEED = 3640889 / 262144 \<and>
    (v \<le> HIGHWAY_SPEED \<longrightarrow> bbox_extension v = additive_extension v) \<and>
    (HIGHWAY_SPEED < v \<longrightarrow> bbox_extension v = 5 * v) \<and>
    bbox_extension u \<le> bbox_extension v"
  using assms bbox_extension_low [of v] bbox_extension_high [of v] bbox_extension_mono [of u v]
    HIGHWAY_SPEED_eq
  by blast


text \<open>Witness for C3: one pair of speeds below the threshold, one pair across it.\<close>

theorem bbox_extension_by_speed_witness:
  "(0::real) \<le> 1 \<and> (1::real) \<le> 2 \<and> 2 \<le> HIGHWAY_SPEED \<and>
   bbox_extension 2 = additive_extension 2 \<and> bbox_extension 1 \<le> bbox_extension 2 \<and>
   (0::real) \<le> 13 \<and> (13::real) \<le> 14 \<and> HIGHWAY_SPEED < 14 \<and>
   bbox_extension 14 = 5 * 14 \<and> bbox_extension 13 \<le> bbox_extension 14"
proof -
  have low: "(0::real) \<le> 1" "(1::real) \<le> 2" "2 \<le> HIGHWAY_SPEED"
    by (simp_all add: HIGHWAY_SPEED_def)
  have high: "(0::real) \<le> 13" "(13::real) \<le> 14" "HIGHWAY_SPEED < 14"
    by (simp_all add: HIGHWAY_SPEED_def)
  from bbox_extension_by_speed [OF low(1,2)] low(3)
  have "bbox_extension 2 = additive_extension 2 \<and> bbox_extension 1 \<le> bbox_extension 2"
    by blast
  moreover from bbox_extension_by_speed [OF high(1,2)] high(3)
  have "bbox_extension 14 = 5 * 14 \<and> bbox_extension 13 \<le> bbox_extension 14"
    by blast
  ultimately show ?thesis using low high by blast
qed

text \<open>
  Counterexample to C3 as stated: at the threshold itself, a speed that a
  \<^verbatim>\<open>float\<close> can take, the extension is the additive value and not \<open>5 speed\<close>; the test
  of line 233 is \<^verbatim>\<open>velocity > HIGHWAY_SPEED\<close>.
\<close>

theorem bbox_extension_threshold_counterexample:
  "HIGHWAY_SPEED = 3640889 / 262144 \<and>
   bbox_extension (3640889 / 262144) = additive_extension (3640889 / 262144) \<and>
   bbox_extension (3640889 / 262144) \<noteq> 5 * (3640889 / 262144)"
  using additive_extension_threshold bbox_extension_low [of "3640889 / 262144"]
  by (simp add: HIGHWAY_SPEED_eq)

subsection \<open>C4: the geodesic boundary of unregistered and registered actors\<close>




subsection \<open>C5: vehicles on different levels\<close>

text \<open>
  C5. When the heights of the two vehicles differ by 2.0 units or more,
  \<open>NegotiateCollision\<close> returns false, whatever their boundaries and distances are.
\<close>

theorem NegotiateCollision_vertical_separation:
  assumes "GetLocation E reference_vehicle = Inr reference_location"
    and "GetLocation E other_vehicle = Inr other_location"
    and "2 \<le> \<bar>vec_z reference_location - vec_z other_location\<bar>"
  shows "NegotiateCollision E s reference_vehicle other_vehicle = Inr False"
  using assms by (simp add: NegotiateCollision_def VERTICAL_OVERLAP_THRESHOLD_def)

text \<open>Witness for C5: vehicle 7 on the ground and actor 8, 5 units above it.\<close>

theorem NegotiateCollision_vertical_separation_witness:
  "GetLocation sample_world 7 = Inr (vec 70 0 0) \<and>
   GetLocation sample_world 8 = Inr (vec 80 0 5) \<and>
   2 \<le> \<bar>vec_z (vec 70 0 0) - vec_z (vec 80 0 5)\<bar> \<and>
   NegotiateCollision sample_world first_tick 7 8 = Inr False"
proof -
  have h: "GetLocation sample_world 7 = Inr (vec 70 0 0)"
    "GetLocation sample_world 8 = Inr (vec 80 0 5)"
    "2 \<le> \<bar>vec_z (vec 70 0 0) - vec_z (vec 80 0 5)\<bar>"
    by (simp_all add: vec_def)
  from NegotiateCollision_vertical_separation [OF h] h show ?thesis by simp
qed

subsection \<open>C6: the frame selector and the two output arrays\<close>

text \<open>
  C6, as amended. \<open>DataSender\<close> flips the selector exactly once, after the packet has
  been built from the array the selector designated and before the packet is given to
  the messenger; \<open>DataReceiver\<close> and \<open>Action\<close> leave the selector as it is. The array
  sent is the one that \<open>Action\<close> wrote before the call; after the call the selector
  designates the other array, and an \<open>Action\<close> of the next tick leaves the array sent
  as it was.
\<close>

theorem DataSender_flips_selector_before_send:
  "frame_selector (DataSender E s) = (\<not> frame_selector s) \<and>
   trace (DataSender E s) =
     trace s @ [SelectorFlipped, PacketSent (planner_messenger_state s) (current_planner_frame s)] \<and>
   current_planner_frame (DataSender E s) \<noteq> current_planner_frame s \<and>
   frame_selector (DataReceiver E s) = frame_selector s \<and>
   (Action_with E negotiate start_index end_index s = Inr s' \<longrightarrow>
      frame_selector s' = frame_selector s) \<and>
   (Action_with E negotiate start_index end_index (DataReceiver E (DataSender E s)) = Inr s'' \<longrightarrow>
      read_frame s'' (current_planner_frame s) = read_frame s (current_planner_frame s))"
proof -
  let ?t = "DataReceiver E (DataSender E s)"
  have flip: "frame_selector (DataSender E s) = (\<not> frame_selector s)"
    by (simp add: DataSender_def Let_def)
  have tr: "trace (DataSender E s) =
     trace s @ [SelectorFlipped, PacketSent (planner_messenger_state s) (current_planner_frame s)]"
    by (simp add: DataSender_def Let_def)
  have other: "current_planner_frame (DataSender E s) \<noteq> current_planner_frame s"
    by (simp add: current_planner_frame_def flip)
  have "current_planner_frame ?t = current_planner_frame (DataSender E s)"
    by (simp add: current_planner_frame_def frame_selector_DataReceiver)
  with other have ne: "current_planner_frame s \<noteq> current_planner_frame ?t" by simp
  have next_tick: "read_frame s'' (current_planner_frame s) = read_frame s (current_planner_frame s)"
    if "Action_with E negotiate start_index end_index ?t = Inr s''"
    using Action_with_Inr(4) [OF that ne]
    by (simp add: read_frame_DataReceiver read_frame_DataSender)
  from flip tr other next_tick show ?thesis
    by (auto simp: frame_selector_DataReceiver dest: Action_with_Inr(1))
qed

text \<open>
  Witness for C6: \<open>Action\<close> on vehicle 1 of the first frame, once in the first tick and
  once after a \<open>DataSender\<close> and the next \<open>DataReceiver\<close>.
\<close>

theorem DataSender_flips_selector_before_send_witness:
  "(\<exists>s'. Action sample_world 1 1 first_tick = Inr s' \<and>
         frame_selector s' = frame_selector first_tick) \<and>
   (\<exists>s''. Action sample_world 1 1 (DataReceiver sample_world (DataSender sample_world sample_stage))
            = Inr s'' \<and>
          current_planner_frame sample_stage = FrameA \<and>
          read_frame s'' FrameA = read_frame sample_stage FrameA)"
proof -
  let ?t = "DataReceiver sample_world (DataSender sample_world sample_stage)"
  have t: "localization_frame ?t = sample_frame 0" "frame_selector ?t = False"
    "planner_frame_b ?t = [False, False, False]" "vicinity_grid ?t = []"
    by (simp_all add: DataReceiver_def DataSender_def sample_stage_def CollisionStage_init_def
        Let_def numeral_3_eq_3)
  have g: "vicinity_grid first_tick = []"
    by (simp add: first_tick_def DataReceiver_def sample_stage_def CollisionStage_init_def)
  obtain s' where s': "Action sample_world 1 1 first_tick = Inr s'"
    by (simp add: Action_def Action_with_def vehicle_step_def vector_at_def sample_frame_def g
        current_planner_frame_def write_hazard_def read_frame_def Let_def)
  obtain s'' where s'': "Action sample_world 1 1 ?t = Inr s''"
    by (simp add: Action_def Action_with_def vehicle_step_def vector_at_def sample_frame_def t
        current_planner_frame_def write_hazard_def read_frame_def Let_def)
  have c: "current_planner_frame sample_stage = FrameA"
    by (simp add: current_planner_frame_def sample_stage_def CollisionStage_init_def)
  from DataSender_flips_selector_before_send
         [of sample_world first_tick "NegotiateCollision sample_world" 1 1 s']
       s'
  have "frame_selector s' = frame_selector first_tick" by (simp add: Action_def)
  moreover from DataSender_flips_selector_before_send
         [of sample_world sample_stage "NegotiateCollision sample_world" 1 1 _ s'']
       s'' c
  have "read_frame s'' FrameA = read_frame sample_stage FrameA" by (simp add: Action_def)
  ultimately show ?thesis using s' s'' c by blast
qed

text \<open>
  Counterexample to C6 as stated: in the effects of \<open>DataSender\<close> the flip of the
  selector comes before the hand-over of the packet to the messenger, not after it.
\<close>

theorem selector_flipped_before_send_counterexample:
  "trace (DataSender sample_world sample_stage) = [SelectorFlipped, PacketSent (- 1) FrameA]"
  by (simp add: DataSender_def sample_stage_def CollisionStage_init_def current_planner_frame_def
      Let_def)

subsection \<open>C7: exceptions in the candidate loop\<close>

text \<open>
  C7. Take a vehicle of the range whose frame entry and output slot exist, and suppose
  that no candidate runs into undefined behaviour. Then, however many candidates raise
  an exception while they are resolved or negotiated, the step for the vehicle completes
  and writes the flag at the index of the vehicle; the flag is true exactly when some
  candidate, before or after one that raised, is found hazardous; the warning and the
  info line of lines 118 and 119 are written, in this order, once for every exception
  met before the first hazard; and the loop over the
  range goes on with the vehicles that remain.
\<close>

theorem vehicle_step_survives_exceptions:
  assumes d: "vector_at (localization_frame s) i = Inr data"
    and w: "i < length (read_frame s r)"
    and g: "GetActors E (vicinity_grid s) (actor data) = (ids, grid)"
    and u: "\<forall>c\<in>set ids. candidate_try E (neg (s\<lparr>vicinity_grid := grid\<rparr>)) (s\<lparr>vicinity_grid := grid\<rparr>)
               (actor data) (GetId E (actor data)) c \<noteq> Inl Undefined"
  shows "\<exists>s'. vehicle_step E neg r s i = Inr s' \<and>
           read_frame s' r = (read_frame s r)
             [i := (\<exists>c\<in>set ids. candidate_try E (neg (s\<lparr>vicinity_grid := grid\<rparr>))
                      (s\<lparr>vicinity_grid := grid\<rparr>) (actor data) (GetId E (actor data)) c = Inr True)] \<and>
           trace s' = trace s @ concat (map (\<lambda>c. if candidate_try E (neg (s\<lparr>vicinity_grid := grid\<rparr>))
                      (s\<lparr>vicinity_grid := grid\<rparr>) (actor data) (GetId E (actor data)) c = Inl Exception
                                        then [LogWarning ''Encountered problem while determining collision \<newline>'',
                                              LogInfo ''Actor might not be alive \<newline>'']
                                        else [])
                               (takeWhile (\<lambda>c. candidate_try E (neg (s\<lparr>vicinity_grid := grid\<rparr>))
                      (s\<lparr>vicinity_grid := grid\<rparr>) (actor data) (GetId E (actor data)) c \<noteq> Inr True) ids)) \<and>
           vehicles_loop E neg r (i # rest) s = vehicles_loop E neg r rest s'"
proof -
  let ?s1 = "s\<lparr>vicinity_grid := grid\<rparr>"
  let ?attempt = "candidate_try E (neg ?s1) ?s1 (actor data) (GetId E (actor data))"
  let ?h = "\<exists>c\<in>set ids. ?attempt c = Inr True"
  let ?lg = "concat (map (\<lambda>c. if ?attempt c = Inl Exception then [LogWarning ''Encountered problem while determining collision \<newline>'',
                                              LogInfo ''Actor might not be alive \<newline>'']
                                        else [])
                       (takeWhile (\<lambda>c. ?attempt c \<noteq> Inr True) ids))"
  have loop: "candidates_loop E (neg ?s1) ?s1 (actor data) (GetId E (actor data)) ids False [] = Inr (?h, ?lg)"
    using candidates_loop_result [OF u, of "[]"] by simp
  from w obtain s' where s': "write_hazard r i ?h (?s1\<lparr>trace := trace ?s1 @ ?lg\<rparr>) = Inr s'"
    by (simp add: write_hazard_def)
  have step: "vehicle_step E neg r s i = Inr s'"
    using d g loop s' by (simp add: vehicle_step_def Let_def)
  moreover from write_hazard_Inr(2) [OF s'] have "read_frame s' r = (read_frame s r)[i := ?h]" by simp
  moreover from s' have "trace s' = trace s @ ?lg"
    by (cases r) (auto simp: write_hazard_def split: if_splits)
  moreover from step have "vehicles_loop E neg r (i # rest) s = vehicles_loop E neg r rest s'" by simp
  ultimately show ?thesis by blast
qed

text \<open>
  Witness for C7: in the second tick vehicle 9 has the candidates 9 (itself), 7 (whose
  index in the map lies outside the frame, so \<^verbatim>\<open>at\<close> throws) and 5 (found hazardous).
\<close>

theorem vehicle_step_survives_exceptions_witness:
  "vector_at (localization_frame (second_tick\<lparr>vicinity_grid := [9, 7, 5]\<rparr>)) 0
     = Inr \<lparr>actor = 9, buffer = [sample_waypoint 90]\<rparr> \<and>
   0 < length (read_frame (second_tick\<lparr>vicinity_grid := [9, 7, 5]\<rparr>) FrameA) \<and>
   candidate_try sample_world (\<lambda>a b. Inr True) (second_tick\<lparr>vicinity_grid := [9, 7, 5]\<rparr>) 9 9 9
     = Inr False \<and>
   candidate_try sample_world (\<lambda>a b. Inr True) (second_tick\<lparr>vicinity_grid := [9, 7, 5]\<rparr>) 9 9 7
     = Inl Exception \<and>
   candidate_try sample_world (\<lambda>a b. Inr True) (second_tick\<lparr>vicinity_grid := [9, 7, 5]\<rparr>) 9 9 5
     = Inr True \<and>
   (\<exists>s'. vehicle_step sample_world (\<lambda>s a b. Inr True) FrameA
            (second_tick\<lparr>vicinity_grid := [9, 7, 5]\<rparr>) 0 = Inr s' \<and>
         read_frame s' FrameA = [True, False, False] \<and>
         trace s' = [LogWarning ''Encountered problem while determining collision \<newline>'',
                     LogInfo ''Actor might not be alive \<newline>''] \<and>
         vehicles_loop sample_world (\<lambda>s a b. Inr True) FrameA [0]
            (second_tick\<lparr>vicinity_grid := [9, 7, 5]\<rparr>) = Inr s')"
proof -
  let ?s = "second_tick\<lparr>vicinity_grid := [9, 7, 5]\<rparr>"
  let ?data = "\<lparr>actor = 9 :: nat, buffer = [sample_waypoint 90]\<rparr>"
  have d: "vector_at (localization_frame ?s) 0 = Inr ?data"
    by (simp add: vector_at_def sample_frame_def)
  have w: "0 < length (read_frame ?s FrameA)" by (simp add: read_frame_def)
  have g: "GetActors sample_world (vicinity_grid ?s) (actor ?data) = ([9, 7, 5], [9, 7, 5])"
    by simp
  have upd: "?s\<lparr>vicinity_grid := [9, 7, 5]\<rparr> = ?s" by simp
  have c: "candidate_try sample_world (\<lambda>a b. Inr True) ?s 9 9 9 = Inr False"
    "candidate_try sample_world (\<lambda>a b. Inr True) ?s 9 9 7 = Inl Exception"
    "candidate_try sample_world (\<lambda>a b. Inr True) ?s 9 9 5 = Inr True"
    by (simp_all add: candidate_try_def resolve_actor_def vector_at_def sample_frame_def vec_def
        SEARCH_RADIUS_def Let_def)
  have u: "\<forall>c\<in>set [9, 7, 5]. candidate_try sample_world ((\<lambda>s a b. Inr True) (?s\<lparr>vicinity_grid := [9, 7, 5]\<rparr>))
             (?s\<lparr>vicinity_grid := [9, 7, 5]\<rparr>) (actor ?data) (GetId sample_world (actor ?data)) c
           \<noteq> Inl Undefined"
    using c by simp
  from vehicle_step_survives_exceptions [OF d w g u, of "[]"] c
  have "\<exists>s'. vehicle_step sample_world (\<lambda>s a b. Inr True) FrameA ?s 0 = Inr s' \<and>
         read_frame s' FrameA = [True, False, False] \<and>
         trace s' = [LogWarning ''Encountered problem while determining collision \<newline>'',
                     LogInfo ''Actor might not be alive \<newline>''] \<and>
         vehicles_loop sample_world (\<lambda>s a b. Inr True) FrameA [0] ?s = Inr s'"
    by (simp add: read_frame_def)
  with d w c show ?thesis by simp
qed

subsection \<open>C8: the search radius\<close>

text \<open>
  C8. The square of the search radius is 400. The outcome for a candidate can depend on
  the negotiation only when the candidate is another actor, resolves to a handle, and
  the squared distance between the two locations is at most 400; and a candidate whose
  squared distance to the vehicle exceeds 400 never makes the vehicle hazardous,
  whatever the negotiation would answer.
\<close>

theorem NegotiateCollision_within_search_radius:
  "SEARCH_RADIUS * SEARCH_RADIUS = 400 \<and>
   (candidate_try E negotiate s ego_actor ego_actor_id actor_id
      \<noteq> candidate_try E negotiate' s ego_actor ego_actor_id actor_id \<longrightarrow>
    (\<exists>a ego_location actor_location.
       actor_id \<noteq> ego_actor_id \<and> resolve_actor s actor_id = Inr (Some a) \<and>
       GetLocation E ego_actor = Inr ego_location \<and> GetLocation E a = Inr actor_location \<and>
       DistanceSquared E ego_location actor_location \<le> 400 \<and>
       negotiate ego_actor a \<noteq> negotiate' ego_actor a)) \<and>
   (GetLocation E ego_actor = Inr ego_location \<and> resolve_actor s actor_id = Inr (Some a) \<and>
    GetLocation E a = Inr actor_location \<and>
    400 < DistanceSquared E ego_location actor_location \<longrightarrow>
      candidate_try E negotiate s ego_actor ego_actor_id actor_id = Inr False)"
  using candidate_try_depends [of E negotiate s ego_actor ego_actor_id actor_id negotiate']
    candidate_try_far [of E ego_actor ego_location s actor_id a actor_location negotiate ego_actor_id]
  by (simp add: SEARCH_RADIUS_def)

text \<open>
  Witness for C8: seen from vehicle 5, vehicle 7 is 20 units away (the negotiation
  decides) and vehicle 9 is 40 units away (it is not asked).
\<close>

theorem NegotiateCollision_within_search_radius_witness:
  "candidate_try sample_world (\<lambda>a b. Inr True) first_tick 5 5 7 = Inr True \<and>
   candidate_try sample_world (\<lambda>a b. Inr False) first_tick 5 5 7 = Inr False \<and>
   resolve_actor first_tick 7 = Inr (Some 7) \<and>
   DistanceSquared sample_world (vec 50 0 0) (vec 70 0 0) \<le> 400 \<and>
   GetLocation sample_world 5 = Inr (vec 50 0 0) \<and> resolve_actor first_tick 9 = Inr (Some 9) \<and>
   GetLocation sample_world 9 = Inr (vec 90 0 0) \<and>
   400 < DistanceSquared sample_world (vec 50 0 0) (vec 90 0 0) \<and>
   candidate_try sample_world (\<lambda>a b. Inr True) first_tick 5 5 9 = Inr False"
proof -
  have near: "candidate_try sample_world (\<lambda>a b. Inr True) first_tick 5 5 7 = Inr True"
    "candidate_try sample_world (\<lambda>a b. Inr False) first_tick 5 5 7 = Inr False"
    by (simp_all add: candidate_try_def resolve_actor_def vector_at_def sample_frame_def vec_def
        SEARCH_RADIUS_def Let_def)
  have r7: "resolve_actor first_tick 7 = Inr (Some 7)"
    by (simp add: resolve_actor_def vector_at_def sample_frame_def)
  have far: "GetLocation sample_world 5 = Inr (vec 50 0 0)"
    "resolve_actor first_tick 9 = Inr (Some 9)"
    "GetLocation sample_world 9 = Inr (vec 90 0 0)"
    "400 < DistanceSquared sample_world (vec 50 0 0) (vec 90 0 0)"
    by (simp_all add: resolve_actor_def vector_at_def sample_frame_def vec_def)
  from NegotiateCollision_within_search_radius
         [of sample_world "\<lambda>a b. Inr True" first_tick 5 5 7 "\<lambda>a b. Inr False"] near r7
  have "DistanceSquared sample_world (vec 50 0 0) (vec 70 0 0) \<le> 400"
    by (auto simp: vec_def)
  moreover from NegotiateCollision_within_search_radius
         [of sample_world _ first_tick 5 5 9 _ "vec 50 0 0" 9 "vec 90 0 0"] far
  have "candidate_try sample_world (\<lambda>a b. Inr True) first_tick 5 5 9 = Inr False"
    by blast
  ultimately show ?thesis using near r7 far by simp
qed

subsection \<open>C9: the overlap test\<close>




subsection \<open>C10: the handle of a candidate\<close>

text \<open>
  C10 fails on the code. The grid returns identity 3 for vehicle 9; neither the map nor
  the table of unregistered actors knows it, the handle stays null, and line 110
  dereferences it: the candidate, and with it \<open>Action\<close>, ends in undefined behaviour,
  which the handler of line 117 does not catch.
\<close>

theorem unresolved_candidate_null_dereference:
  "id_to_index (first_tick\<lparr>vicinity_grid := [3]\<rparr>) 3 = None \<and>
   map_of (unregistered_actors (first_tick\<lparr>vicinity_grid := [3]\<rparr>)) 3 = None \<and>
   GetActors sample_world (vicinity_grid (first_tick\<lparr>vicinity_grid := [3]\<rparr>)) 9 = ([3], [3]) \<and>
   resolve_actor (first_tick\<lparr>vicinity_grid := [3]\<rparr>) 3 = Inr None \<and>
   candidate_try sample_world (NegotiateCollision sample_world (first_tick\<lparr>vicinity_grid := [3]\<rparr>))
     (first_tick\<lparr>vicinity_grid := [3]\<rparr>) 9 9 3 = Inl Undefined \<and>
   Action sample_world 1 1 (first_tick\<lparr>vicinity_grid := [3]\<rparr>) = Inl Undefined"
  by (simp add: candidate_try_def resolve_actor_def vector_at_def sample_frame_def vec_def
       Action_def Action_with_def vehicle_step_def Let_def)

end
